theory Spec2Isabelle
  imports Complex_Main
begin

section \<open>Python values, errors and NumPy arrays\<close>

text \<open>
  The link-prediction code of embiggen (\<^verbatim>\<open>embiggen/link_prediction.py\<close>) and the
  embedding loader (\<^verbatim>\<open>xn2v/utils/embedding_utils.py\<close>) are embedded as HOL functions.
  Every exception the Python code can raise is a value of \<open>error\<close>; a function that can
  raise returns \<open>error + 'a\<close>, with \<open>Inl\<close> for the exception. \<^verbatim>\<open>sys.exit(1)\<close> raises
  \<^verbatim>\<open>SystemExit(1)\<close>.

  Python's \<^verbatim>\<open>float\<close> (IEEE double) is idealised as \<open>real\<close>: rounding is not modelled.
  The special results of NumPy's division by zero are modelled separately below
  (\<open>npfloat\<close>).
\<close>

datatype error = KeyError | TypeError | ValueError | IOError | IndexError | SystemExit nat

type_synonym node = string

type_synonym edge = "node \<times> node"

text \<open>
  A node vector is, at run time, either a Python list of floats (what
  \<^verbatim>\<open>load_embeddings\<close> and \<^verbatim>\<open>read_embeddings\<close> build:
  \<^verbatim>\<open>[float(i) for i in fields[1:]]\<close>) or a one-dimensional NumPy array (what a caller
  may pass to \<^verbatim>\<open>create_edge_embeddings\<close> in its own dictionary). The two differ under
  the Python operator \<^verbatim>\<open>-\<close>.
\<close>

datatype vector = PyList "real list" | NdArray "real list"

fun elems :: "vector \<Rightarrow> real list" where
  "elems (PyList xs) = xs"
| "elems (NdArray xs) = xs"

text \<open>
  A NumPy binary ufunc on two one-dimensional operands: equal lengths are combined
  elementwise, an operand of length 1 is broadcast along the other, any other pair of
  lengths raises \<^verbatim>\<open>ValueError\<close> (operands could not be broadcast together).
\<close>

definition np_broadcast :: "(real \<Rightarrow> real \<Rightarrow> real) \<Rightarrow> real list \<Rightarrow> real list \<Rightarrow> error + real list" where
  "np_broadcast f xs ys =
     (if length xs = length ys then Inr (map2 f xs ys)
      else if length xs = 1 then Inr (map (f (hd xs)) ys)
      else if length ys = 1 then Inr (map (\<lambda>x. f x (hd ys)) xs)
      else Inl ValueError)"

text \<open>\<^verbatim>\<open>np.multiply(a, b)\<close> and \<^verbatim>\<open>np.add(a, b)\<close> convert list operands to arrays.\<close>

definition np_multiply :: "vector \<Rightarrow> vector \<Rightarrow> error + real list" where
  "np_multiply a b = np_broadcast (\<lambda>x y. x * y) (elems a) (elems b)"

definition np_add :: "vector \<Rightarrow> vector \<Rightarrow> error + real list" where
  "np_add a b = np_broadcast (\<lambda>x y. x + y) (elems a) (elems b)"

text \<open>
  The Python expression \<^verbatim>\<open>a - b\<close>: two lists have no \<^verbatim>\<open>__sub__\<close> and raise
  \<^verbatim>\<open>TypeError\<close>; as soon as one operand is an array, NumPy's subtraction (with
  \<^verbatim>\<open>__rsub__\<close> for a list on the left) is used.
\<close>

fun py_sub :: "vector \<Rightarrow> vector \<Rightarrow> error + real list" where
  "py_sub (PyList xs) (PyList ys) = Inl TypeError"
| "py_sub a b = np_broadcast (\<lambda>x y. x - y) (elems a) (elems b)"

text \<open>Applying an elementwise function to the array an operation returned.\<close>

definition on_result :: "('a \<Rightarrow> 'b) \<Rightarrow> error + 'a \<Rightarrow> error + 'b" where
  "on_result f r = (case r of Inl e \<Rightarrow> Inl e | Inr x \<Rightarrow> Inr (f x))"

text \<open>
  A NumPy array of floats as this code builds them: one-dimensional of shape \<open>(n,)\<close>, or
  two-dimensional of shape \<open>(p, d)\<close>, kept as its \<open>p\<close> rows with the width \<open>d\<close>.
\<close>

datatype ndarray = Array1 "real list" | Array2 nat "real list list"

text \<open>What iterating over an array yields: scalars, or rows.\<close>

datatype item = Scalar real | Row "real list"

fun items :: "ndarray \<Rightarrow> item list" where
  "items (Array1 xs) = map Scalar xs"
| "items (Array2 d rows) = map Row rows"

definition len :: "ndarray \<Rightarrow> nat" where
  "len a = length (items a)"

text \<open>
  \<^verbatim>\<open>np.array(rows)\<close> on a Python list of vectors: the empty list gives the
  one-dimensional empty array (shape \<open>(0,)\<close>), rows of one length \<open>d\<close> a \<open>(p, d)\<close> array.
  Rows of different lengths are refused with \<^verbatim>\<open>ValueError\<close> (NumPy from 1.24 on; older
  releases built a one-dimensional array of objects instead, which is not modelled).
\<close>

definition np_array :: "real list list \<Rightarrow> error + ndarray" where
  "np_array rows =
     (case rows of
        [] \<Rightarrow> Inr (Array1 [])
      | r # rs \<Rightarrow>
          if list_all (\<lambda>x. length x = length r) rs then Inr (Array2 (length r) rows)
          else Inl ValueError)"

text \<open>
  \<^verbatim>\<open>np.concatenate([a, b])\<close> along axis 0: both arrays must have the same number of
  dimensions, and two-dimensional arrays the same width.
\<close>

fun np_concatenate :: "ndarray \<Rightarrow> ndarray \<Rightarrow> error + ndarray" where
  "np_concatenate (Array1 xs) (Array1 ys) = Inr (Array1 (xs @ ys))"
| "np_concatenate (Array2 d xs) (Array2 d' ys) =
     (if d = d' then Inr (Array2 d (xs @ ys)) else Inl ValueError)"
| "np_concatenate a b = Inl ValueError"

definition np_ones :: "nat \<Rightarrow> ndarray" where
  "np_ones n = Array1 (replicate n 1)"

definition np_zeros :: "nat \<Rightarrow> ndarray" where
  "np_zeros n = Array1 (replicate n 0)"

section \<open>Edge embeddings: \<^verbatim>\<open>LinkPrediction.create_edge_embeddings\<close>\<close>

text \<open>
  The \<^verbatim>\<open>if\<close>/\<^verbatim>\<open>elif\<close> chain of the loop body, in the source's order: the edge vector
  for the two endpoint vectors under the configured operator name.
\<close>

definition edge_emb :: "string \<Rightarrow> vector \<Rightarrow> vector \<Rightarrow> error + real list" where
  "edge_emb edge_embedding_method emb1 emb2 =
     (if edge_embedding_method = ''hadamard'' then np_multiply emb1 emb2
      else if edge_embedding_method = ''average'' then
        on_result (map (\<lambda>x. x / 2)) (np_add emb1 emb2)
      else if edge_embedding_method = ''weightedL1'' then
        on_result (map abs) (py_sub emb1 emb2)
      else if edge_embedding_method = ''weightedL2'' then
        on_result (map (\<lambda>x. x ^ 2)) (py_sub emb1 emb2)
      else Inl (SystemExit 1))"

text \<open>
  One iteration of the loop for one edge: the two dictionary lookups (a missing key
  raises \<^verbatim>\<open>KeyError\<close>, the source node first), then the operator.
\<close>

definition embed_edge :: "string \<Rightarrow> (node \<rightharpoonup> vector) \<Rightarrow> edge \<Rightarrow> error + (vector \<times> vector \<times> real list)" where
  "embed_edge edge_embedding_method node2vector_map e =
     (case node2vector_map (fst e) of
        None \<Rightarrow> Inl KeyError
      | Some emb1 \<Rightarrow>
          (case node2vector_map (snd e) of
             None \<Rightarrow> Inl KeyError
           | Some emb2 \<Rightarrow>
               (case edge_emb edge_embedding_method emb1 emb2 of
                  Inl err \<Rightarrow> Inl err
                | Inr v \<Rightarrow> Inr (emb1, emb2, v))))"

text \<open>The \<^verbatim>\<open>for edge in edge_list\<close> loop, with the three lists it appends to.\<close>

fun edge_loop :: "string \<Rightarrow> (node \<rightharpoonup> vector) \<Rightarrow> edge list \<Rightarrow>
    vector list \<times> vector list \<times> real list list \<Rightarrow>
    error + (vector list \<times> vector list \<times> real list list)" where
  "edge_loop m n2v [] acc = Inr acc"
| "edge_loop m n2v (e # rest) (src_embs, dst_embs, edge_embs) =
     (case embed_edge m n2v e of
        Inl err \<Rightarrow> Inl err
      | Inr (emb1, emb2, v) \<Rightarrow>
          edge_loop m n2v rest (src_embs @ [emb1], dst_embs @ [emb2], edge_embs @ [v]))"

definition create_edge_embeddings :: "string \<Rightarrow> edge list \<Rightarrow> (node \<rightharpoonup> vector) \<Rightarrow>
    error + (ndarray \<times> ndarray \<times> ndarray)" where
  "create_edge_embeddings edge_embedding_method edge_list node2vector_map =
     (case edge_loop edge_embedding_method node2vector_map edge_list ([], [], []) of
        Inl err \<Rightarrow> Inl err
      | Inr (src_embs, dst_embs, edge_embs) \<Rightarrow>
          (case np_array (map elems src_embs) of
             Inl err \<Rightarrow> Inl err
           | Inr src \<Rightarrow>
               (case np_array (map elems dst_embs) of
                  Inl err \<Rightarrow> Inl err
                | Inr dst \<Rightarrow>
                    (case np_array edge_embs of
                       Inl err \<Rightarrow> Inl err
                     | Inr edg \<Rightarrow> Inr (src, dst, edg)))))"

section \<open>Dataset assembly: \<^verbatim>\<open>LinkPrediction.prepare_edge_and_node_labels\<close>\<close>

text \<open>
  The attributes of a \<^verbatim>\<open>LinkPrediction\<close> object that the modelled methods read. The
  edge lists are what \<^verbatim>\<open>graph.edges()\<close> returned in \<^verbatim>\<open>__init__\<close>.
\<close>

record link_prediction =
  pos_train_edges :: "edge list"
  pos_test_edges :: "edge list"
  pos_valid_edges :: "edge list"
  neg_train_edges :: "edge list"
  neg_valid_edges :: "edge list"
  neg_test_edges :: "edge list"
  map_node_vector :: "node \<rightharpoonup> vector"
  edge_embedding_method :: string
  classifier :: string
  use_validation :: bool

text \<open>The four arrays the method stores for one partition (train, test or validation).\<close>

record dataset =
  src_embs :: ndarray
  dst_embs :: ndarray
  edge_embs :: ndarray
  labels :: ndarray

text \<open>
  The block the source writes out three times, once per partition: embed the positive
  and the negative edge list, concatenate positives before negatives, and build the
  labels from the lengths of the two edge-vector arrays.
\<close>

definition prepare_partition :: "string \<Rightarrow> (node \<rightharpoonup> vector) \<Rightarrow> edge list \<Rightarrow> edge list \<Rightarrow>
    error + dataset" where
  "prepare_partition m n2v pos_edges neg_edges =
     (case create_edge_embeddings m pos_edges n2v of
        Inl err \<Rightarrow> Inl err
      | Inr (pos_src, pos_dst, pos_edge) \<Rightarrow>
     (case create_edge_embeddings m neg_edges n2v of
        Inl err \<Rightarrow> Inl err
      | Inr (neg_src, neg_dst, neg_edge) \<Rightarrow>
     (case np_concatenate pos_src neg_src of
        Inl err \<Rightarrow> Inl err
      | Inr s \<Rightarrow>
     (case np_concatenate pos_dst neg_dst of
        Inl err \<Rightarrow> Inl err
      | Inr d \<Rightarrow>
     (case np_concatenate pos_edge neg_edge of
        Inl err \<Rightarrow> Inl err
      | Inr e \<Rightarrow>
     (case np_concatenate (np_ones (len pos_edge)) (np_zeros (len neg_edge)) of
        Inl err \<Rightarrow> Inl err
      | Inr l \<Rightarrow> Inr \<lparr>src_embs = s, dst_embs = d, edge_embs = e, labels = l\<rparr>))))))"

text \<open>
  Train, then test, then validation when \<^verbatim>\<open>use_validation\<close> is set. The result holds
  the attributes the method assigns; its closing \<^verbatim>\<open>logging.info\<close> calls cannot fail and
  are left out.
\<close>

definition prepare_edge_and_node_labels :: "link_prediction \<Rightarrow>
    error + (dataset \<times> dataset \<times> dataset option)" where
  "prepare_edge_and_node_labels self =
     (case prepare_partition (edge_embedding_method self) (map_node_vector self)
             (pos_train_edges self) (neg_train_edges self) of
        Inl err \<Rightarrow> Inl err
      | Inr train \<Rightarrow>
     (case prepare_partition (edge_embedding_method self) (map_node_vector self)
             (pos_test_edges self) (neg_test_edges self) of
        Inl err \<Rightarrow> Inl err
      | Inr test \<Rightarrow>
          if use_validation self then
            (case prepare_partition (edge_embedding_method self) (map_node_vector self)
                    (pos_valid_edges self) (neg_valid_edges self) of
               Inl err \<Rightarrow> Inl err
             | Inr valid \<Rightarrow> Inr (train, test, Some valid))
          else Inr (train, test, None)))"

section \<open>Classifier selection: \<^verbatim>\<open>LinkPrediction.predict_links\<close>\<close>

text \<open>
  The classifiers \<^verbatim>\<open>predict_links\<close> can construct. The neural networks take the last
  component of the shape of a training array; the last variant is
  \<^verbatim>\<open>CalibratedClassifierCV(svm.LinearSVC())\<close>. Fitting and predicting belong to
  scikit-learn and the neural-network module and are not modelled.
\<close>

datatype backend =
    LogisticRegression
  | RandomForestClassifier
  | MLP nat
  | FFNN nat
  | MultiModalFFNN nat
  | CalibratedLinearSVC

fun shape_last :: "ndarray \<Rightarrow> nat" where
  "shape_last (Array1 xs) = length xs"
| "shape_last (Array2 d rows) = d"

text \<open>
  The first \<^verbatim>\<open>if\<close>/\<^verbatim>\<open>elif\<close> chain of \<^verbatim>\<open>predict_links\<close>: the lines it logs and the
  classifier it constructs, from the classifier name and the training dataset.
\<close>

definition predict_links_classifier :: "string \<Rightarrow> dataset \<Rightarrow> string list \<times> backend" where
  "predict_links_classifier name train =
     (if name = ''LR'' then ([], LogisticRegression)
      else if name = ''RF'' then ([], RandomForestClassifier)
      else if name = ''MLP'' then ([], MLP (shape_last (edge_embs train)))
      else if name = ''FFNN'' then ([], FFNN (shape_last (edge_embs train)))
      else if name = ''MultiModalFFNN'' then ([], MultiModalFFNN (shape_last (src_embs train)))
      else ([''Using SVM (default) classifier for link prediction''], CalibratedLinearSVC))"

text \<open>
  Modelled from the spec: the driver that runs a \<^verbatim>\<open>LinkPrediction\<close> object is not among
  the source files (the script \<^verbatim>\<open>runLinkPrediction_ppi.py\<close> uses another class). The
  spec's data flow is: edge embedding builder, dataset assembler, then the classifier.
  A run is therefore \<^verbatim>\<open>prepare_edge_and_node_labels\<close> followed by \<^verbatim>\<open>predict_links\<close>;
  it either aborts before \<^verbatim>\<open>predict_links\<close> is entered, or reaches the construction of
  a classifier.
\<close>

definition run :: "link_prediction \<Rightarrow> error + (string list \<times> backend)" where
  "run self =
     (case prepare_edge_and_node_labels self of
        Inl err \<Rightarrow> Inl err
      | Inr (train, test, valid) \<Rightarrow> Inr (predict_links_classifier (classifier self) train))"

section \<open>Metrics: \<^verbatim>\<open>LinkPrediction.output_classifier_results\<close>\<close>













section \<open>The embedding store: \<^verbatim>\<open>load_embeddings\<close>\<close>

text \<open>
  Iterating over a text file yields its lines, each with its terminating newline (the
  last line may have none).
\<close>

fun file_lines :: "string \<Rightarrow> string list" where
  "file_lines [] = []"
| "file_lines (c # cs) =
     (if c = CHR 0x0A then [c] # file_lines cs
      else (case file_lines cs of [] \<Rightarrow> [[c]] | l # ls \<Rightarrow> (c # l) # ls))"

text \<open>\<^verbatim>\<open>line.split(sep)\<close> for a one-character separator: every occurrence splits.\<close>

fun split_on :: "char \<Rightarrow> string \<Rightarrow> string list" where
  "split_on sep [] = [[]]"
| "split_on sep (c # cs) =
     (if c = sep then [] # split_on sep cs
      else (case split_on sep cs of [] \<Rightarrow> [[c]] | f # fs \<Rightarrow> (c # f) # fs))"

text \<open>
  \<^verbatim>\<open>[float(i) for i in fields]\<close>, with Python's \<^verbatim>\<open>float\<close> on strings as a parameter:
  \<open>None\<close> where \<^verbatim>\<open>float\<close> raises \<^verbatim>\<open>ValueError\<close>.
\<close>

fun floats :: "(string \<Rightarrow> real option) \<Rightarrow> string list \<Rightarrow> error + real list" where
  "floats pyfloat [] = Inr []"
| "floats pyfloat (s # ss) =
     (case pyfloat s of
        None \<Rightarrow> Inl ValueError
      | Some x \<Rightarrow> (case floats pyfloat ss of Inl err \<Rightarrow> Inl err | Inr xs \<Rightarrow> Inr (x # xs)))"

text \<open>The loop over the lines, updating the dictionary.\<close>

fun read_lines :: "(string \<Rightarrow> real option) \<Rightarrow> string list \<Rightarrow> (string \<rightharpoonup> real list) \<Rightarrow>
    error + (string \<rightharpoonup> real list)" where
  "read_lines pyfloat [] embedding_data = Inr embedding_data"
| "read_lines pyfloat (line # rest) embedding_data =
     (case floats pyfloat (tl (split_on (CHR '' '') line)) of
        Inl err \<Rightarrow> Inl err
      | Inr embedding_vector \<Rightarrow>
          read_lines pyfloat rest
            (embedding_data(hd (split_on (CHR '' '') line) \<mapsto> embedding_vector)))"

text \<open>
  The file system maps the path of a readable file to its text; a path it does not map
  does not exist. The text is empty exactly when the file has size 0.
\<close>

definition load_embeddings :: "(string \<Rightarrow> real option) \<Rightarrow> (string \<rightharpoonup> string) \<Rightarrow> string option \<Rightarrow>
    error + (string \<rightharpoonup> real list)" where
  "load_embeddings pyfloat fs file_name =
     (case file_name of
        None \<Rightarrow> Inl ValueError
      | Some path \<Rightarrow>
          (case fs path of
             None \<Rightarrow> Inl IOError
           | Some content \<Rightarrow>
               if content = [] then Inl TypeError
               else read_lines pyfloat (file_lines content) Map.empty))"

text \<open>
  \<^verbatim>\<open>LinkPrediction.__init__\<close>: the store is what \<^verbatim>\<open>load_embeddings\<close> returns, so every
  node vector of the object is a Python list.
\<close>

definition init :: "(string \<Rightarrow> real option) \<Rightarrow> (string \<rightharpoonup> string) \<Rightarrow>
    edge list \<Rightarrow> edge list \<Rightarrow> edge list \<Rightarrow> edge list \<Rightarrow> edge list \<Rightarrow> edge list \<Rightarrow>
    string option \<Rightarrow> string \<Rightarrow> string \<Rightarrow> bool \<Rightarrow> error + link_prediction" where
  "init pyfloat fs pos_train pos_validation pos_test neg_train neg_validation neg_test
       embedded_train_graph_path edge_embedding_method' classifier' use_valid =
     (case load_embeddings pyfloat fs embedded_train_graph_path of
        Inl err \<Rightarrow> Inl err
      | Inr embedding_data \<Rightarrow>
          Inr \<lparr>pos_train_edges = pos_train, pos_test_edges = pos_test,
               pos_valid_edges = pos_validation, neg_train_edges = neg_train,
               neg_valid_edges = neg_validation, neg_test_edges = neg_test,
               map_node_vector = (\<lambda>k. map_option PyList (embedding_data k)),
               edge_embedding_method = edge_embedding_method',
               classifier = classifier', use_validation = use_valid\<rparr>)"

subsection \<open>A reading of decimal numerals\<close>

text \<open>
  An instance of the parameter \<open>pyfloat\<close> for concrete files: surrounding white space is
  stripped, then an optional sign, digits, and an optional fraction are read. On these
  strings it returns the number Python's \<^verbatim>\<open>float\<close> returns (up to rounding); Python
  accepts further forms (exponents, underscores between digits, \<^verbatim>\<open>inf\<close>, \<^verbatim>\<open>nan\<close>), which
  this instance does not read. The theorems about \<^verbatim>\<open>load_embeddings\<close> hold for every
  \<open>pyfloat\<close>; the instance only serves the evaluation of the concrete files.
\<close>

definition digit_of :: "char \<Rightarrow> nat option" where
  "digit_of c = map_of (zip ''0123456789'' [0, 1, 2, 3, 4, 5, 6, 7, 8, 9]) c"

fun digits_value :: "string \<Rightarrow> nat \<Rightarrow> nat option" where
  "digits_value [] acc = Some acc"
| "digits_value (c # cs) acc =
     (case digit_of c of None \<Rightarrow> None | Some d \<Rightarrow> digits_value cs (10 * acc + d))"

definition is_space :: "char \<Rightarrow> bool" where
  "is_space c = (c = CHR '' '' \<or> c = CHR 0x0A \<or> c = CHR 0x09 \<or> c = CHR 0x0D
                 \<or> c = CHR 0x0B \<or> c = CHR 0x0C)"

definition strip :: "string \<Rightarrow> string" where
  "strip s = rev (dropWhile is_space (rev (dropWhile is_space s)))"

definition float_decimal :: "string \<Rightarrow> real option" where
  "float_decimal s =
     (let t = strip s;
          negative = (take 1 t = ''-'');
          u = (if take 1 t = ''-'' \<or> take 1 t = ''+'' then drop 1 t else t);
          ip = takeWhile (\<lambda>c. c \<noteq> CHR ''.'') u;
          fp = drop 1 (dropWhile (\<lambda>c. c \<noteq> CHR ''.'') u)
      in if ip = [] \<and> fp = [] then None
         else (case digits_value ip 0 of
                 None \<Rightarrow> None
               | Some a \<Rightarrow>
                   (case digits_value fp 0 of
                      None \<Rightarrow> None
                    | Some b \<Rightarrow>
                        Some ((if negative then - 1 else 1) *
                              (real a + real b / 10 ^ length fp)))))"

section \<open>Notions used in the statements\<close>

text \<open>
  The loop of \<^verbatim>\<open>create_edge_embeddings\<close> as a map that stops at the first exception;
  \<open>edge_loop\<close> is shown equal to it below.
\<close>

fun embed_all :: "string \<Rightarrow> (node \<rightharpoonup> vector) \<Rightarrow> edge list \<Rightarrow> error + (vector \<times> vector \<times> real list) list" where
  "embed_all m n2v [] = Inr []"
| "embed_all m n2v (e # es) =
     (case embed_edge m n2v e of
        Inl err \<Rightarrow> Inl err
      | Inr t \<Rightarrow> (case embed_all m n2v es of Inl err \<Rightarrow> Inl err | Inr ts \<Rightarrow> Inr (t # ts)))"

text \<open>
  Per edge of a list, in input order: the row its edge vector (source vector, destination
  vector) makes in the arrays, or the exception the edge raises.
\<close>

definition edge_rows :: "string \<Rightarrow> (node \<rightharpoonup> vector) \<Rightarrow> edge list \<Rightarrow> (error + item) list" where
  "edge_rows m n2v edges = map (\<lambda>e. on_result (\<lambda>t. Row (snd (snd t))) (embed_edge m n2v e)) edges"

definition src_rows :: "string \<Rightarrow> (node \<rightharpoonup> vector) \<Rightarrow> edge list \<Rightarrow> (error + item) list" where
  "src_rows m n2v edges = map (\<lambda>e. on_result (\<lambda>t. Row (elems (fst t))) (embed_edge m n2v e)) edges"

definition dst_rows :: "string \<Rightarrow> (node \<rightharpoonup> vector) \<Rightarrow> edge list \<Rightarrow> (error + item) list" where
  "dst_rows m n2v edges = map (\<lambda>e. on_result (\<lambda>t. Row (elems (fst (snd t)))) (embed_edge m n2v e)) edges"


text \<open>An edge with an endpoint that is not a key of the store.\<close>

definition missing :: "(node \<rightharpoonup> vector) \<Rightarrow> edge \<Rightarrow> bool" where
  "missing n2v e = (n2v (fst e) = None \<or> n2v (snd e) = None)"

text \<open>The edges a call of \<^verbatim>\<open>prepare_edge_and_node_labels\<close> embeds, in the order of the calls.\<close>

definition processed_edges :: "link_prediction \<Rightarrow> edge list" where
  "processed_edges self =
     pos_train_edges self @ neg_train_edges self @ pos_test_edges self @ neg_test_edges self @
     (if use_validation self then pos_valid_edges self @ neg_valid_edges self else [])"

text \<open>The dataset assembled from two empty edge lists.\<close>

definition empty_dataset :: dataset where
  "empty_dataset = \<lparr>src_embs = Array1 [], dst_embs = Array1 [], edge_embs = Array1 [], labels = Array1 []\<rparr>"

text \<open>The operator names and the classifier names the two \<^verbatim>\<open>if\<close> chains test for.\<close>

definition operators :: "string set" where
  "operators = {''hadamard'', ''average'', ''weightedL1'', ''weightedL2''}"

definition classifier_names :: "string set" where
  "classifier_names = {''LR'', ''RF'', ''MLP'', ''FFNN'', ''MultiModalFFNN''}"



text \<open>
  Concrete objects for evaluation: a store of two arrays, an object with edges in the
  training and test partitions, and an object whose edge lists are all empty.
\<close>

definition example_store :: "node \<rightharpoonup> vector" where
  "example_store = [''A'' \<mapsto> NdArray [1, 0], ''B'' \<mapsto> NdArray [0, 1]]"

definition example_object :: "string \<Rightarrow> link_prediction" where
  "example_object m =
     \<lparr>pos_train_edges = [(''A'', ''B''), (''B'', ''A'')], pos_test_edges = [(''A'', ''B'')],
      pos_valid_edges = [], neg_train_edges = [(''A'', ''A'')],
      neg_valid_edges = [], neg_test_edges = [(''B'', ''B'')],
      map_node_vector = example_store, edge_embedding_method = m,
      classifier = ''LR'', use_validation = False\<rparr>"

definition idle_object :: "string \<Rightarrow> link_prediction" where
  "idle_object m =
     \<lparr>pos_train_edges = [], pos_test_edges = [], pos_valid_edges = [], neg_train_edges = [],
      neg_valid_edges = [], neg_test_edges = [], map_node_vector = example_store,
      edge_embedding_method = m, classifier = ''LR'', use_validation = True\<rparr>"




text \<open>
  The fields of a line, whether Python's \<^verbatim>\<open>float\<close> reads all fields after the first,
  the dictionary entry a line makes, and the dictionary a list of lines makes (a later
  line replaces an earlier one with the same first field).
\<close>

definition fields :: "string \<Rightarrow> string list" where
  "fields line = split_on (CHR '' '') line"

definition parsable :: "(string \<Rightarrow> real option) \<Rightarrow> string \<Rightarrow> bool" where
  "parsable pyfloat line = list_all (\<lambda>f. pyfloat f \<noteq> None) (tl (fields line))"

definition row_of :: "(string \<Rightarrow> real option) \<Rightarrow> string \<Rightarrow> string \<times> real list" where
  "row_of pyfloat line = (hd (fields line), map (\<lambda>f. the (pyfloat f)) (tl (fields line)))"

definition store_of :: "(string \<Rightarrow> real option) \<Rightarrow> string list \<Rightarrow> (string \<rightharpoonup> real list)" where
  "store_of pyfloat lines = map_of (rev (map (row_of pyfloat) lines))"

text \<open>
  A file system with four files, and the object \<^verbatim>\<open>__init__\<close> builds from the file of
  the two vectors \<open>A = [1, 0]\<close> and \<open>B = [0, 1]\<close> with the single training edge
  \<open>(A, B)\<close>.
\<close>

definition example_fs :: "string \<rightharpoonup> string" where
  "example_fs = [''ragged.emb'' \<mapsto> ''A 1 2\<newline>B 1\<newline>'',
                 ''ab.emb'' \<mapsto> ''A 1 0\<newline>B 0 1\<newline>'',
                 ''empty.emb'' \<mapsto> '''',
                 ''bad.emb'' \<mapsto> ''A 1 x\<newline>'']"

definition loaded_object :: "string \<Rightarrow> error + link_prediction" where
  "loaded_object m =
     init float_decimal example_fs [(''A'', ''B'')] [] [] [] [] [] (Some ''ab.emb'') m ''LR'' False"

section \<open>Properties of the edge embedding\<close>

lemma map2_commute:
  assumes "\<And>x y. f x y = f y x"
  shows "map2 f xs ys = map2 f ys xs"
proof -
  have "zip xs ys = map (\<lambda>(x, y). (y, x)) (zip ys xs)"
    by (rule zip_commute)
  then have "map2 f xs ys = map (\<lambda>(x, y). f y x) (zip ys xs)"
    by (simp add: case_prod_unfold)
  also have "\<dots> = map2 f ys xs"
    using assms by simp
  finally show ?thesis .
qed

lemma np_broadcast_commute:
  assumes "\<And>x y. f x y = f y x"
  shows "np_broadcast f xs ys = np_broadcast f ys xs"
  using assms map2_commute [of f xs ys] by (auto simp: np_broadcast_def)

lemma on_result_simps [simp]:
  "on_result f (Inl e) = Inl e" "on_result f (Inr x) = Inr (f x)"
  by (simp_all add: on_result_def)

lemma on_result_np_broadcast:
  "on_result (map g) (np_broadcast f xs ys) = np_broadcast (\<lambda>x y. g (f x y)) xs ys"
  by (auto simp: np_broadcast_def)

lemma py_sub_cases:
  "py_sub a b = Inl TypeError \<or> py_sub a b = np_broadcast (\<lambda>x y. x - y) (elems a) (elems b)"
  by (cases a; cases b) simp_all

lemma py_sub_abs_commute:
  "on_result (map abs) (py_sub a b) = on_result (map abs) (py_sub b a)"
proof -
  have "np_broadcast (\<lambda>x y. \<bar>x - y\<bar>) xs ys = np_broadcast (\<lambda>x y. \<bar>x - y\<bar>) ys xs"
    for xs ys :: "real list"
    by (rule np_broadcast_commute) (simp add: abs_minus_commute)
  then show ?thesis
    by (cases a; cases b) (simp_all add: on_result_np_broadcast)
qed

lemma py_sub_square_commute:
  "on_result (map (\<lambda>x. x ^ 2)) (py_sub a b) = on_result (map (\<lambda>x. x ^ 2)) (py_sub b a)"
proof -
  have "np_broadcast (\<lambda>x y. (x - y) ^ 2) xs ys = np_broadcast (\<lambda>x y. (x - y) ^ 2) ys xs"
    for xs ys :: "real list"
    by (rule np_broadcast_commute) (simp add: power2_commute)
  then show ?thesis
    by (cases a; cases b) (simp_all add: on_result_np_broadcast)
qed

lemma edge_emb_commute: "edge_emb m a b = edge_emb m b a"
proof -
  have "np_multiply a b = np_multiply b a"
    unfolding np_multiply_def by (rule np_broadcast_commute) simp
  moreover have "np_add a b = np_add b a"
    unfolding np_add_def by (rule np_broadcast_commute) simp
  ultimately show ?thesis
    by (simp add: edge_emb_def py_sub_abs_commute [of a b] py_sub_square_commute [of a b])
qed

lemma edge_emb_result:
  assumes "length (elems a) = length (elems b)" and "m \<in> operators"
  shows "(\<exists>v. edge_emb m a b = Inr v \<and> length v = length (elems a)) \<or> edge_emb m a b = Inl TypeError"
  using assms py_sub_cases [of a b]
  by (auto simp: operators_def edge_emb_def np_multiply_def np_add_def np_broadcast_def)

text \<open>
  Claim C7. For two endpoint vectors of equal dimension and each of the four operators,
  the edge vector computed for \<open>(u, v)\<close> is the one computed for \<open>(v, u)\<close>: the two
  computations give the same result, which is a vector of that dimension or, when the
  Python operator \<^verbatim>\<open>-\<close> meets two lists, the same \<^verbatim>\<open>TypeError\<close>.
\<close>

theorem edge_vector_symmetric:
  assumes "length (elems emb1) = length (elems emb2)" and "m \<in> operators"
    and "n2v u = Some emb1" and "n2v v = Some emb2"
  shows "edge_emb m emb1 emb2 = edge_emb m emb2 emb1
       \<and> ((\<exists>w. edge_emb m emb1 emb2 = Inr w \<and> length w = length (elems emb1))
            \<or> edge_emb m emb1 emb2 = Inl TypeError)
       \<and> on_result (\<lambda>t. snd (snd t)) (embed_edge m n2v (u, v)) =
           on_result (\<lambda>t. snd (snd t)) (embed_edge m n2v (v, u))"
proof -
  have "on_result (\<lambda>t. snd (snd t)) (embed_edge m n2v (u, v)) = edge_emb m emb1 emb2"
    using assms(3,4) by (cases "edge_emb m emb1 emb2") (simp_all add: embed_edge_def)
  moreover have "on_result (\<lambda>t. snd (snd t)) (embed_edge m n2v (v, u)) = edge_emb m emb2 emb1"
    using assms(3,4) by (cases "edge_emb m emb2 emb1") (simp_all add: embed_edge_def)
  ultimately show ?thesis
    using edge_emb_commute [of m emb1 emb2] edge_emb_result [OF assms(1,2)] by simp
qed

theorem edge_vector_symmetric_witness:
  "edge_emb ''weightedL1'' (NdArray [1, 0]) (NdArray [0, 1]) = Inr [1, 1]
   \<and> edge_emb ''weightedL1'' (NdArray [0, 1]) (NdArray [1, 0]) = Inr [1, 1]
   \<and> on_result (\<lambda>t. snd (snd t)) (embed_edge ''weightedL1'' example_store (''B'', ''A'')) = Inr [1, 1]"
proof -
  have "edge_emb ''weightedL1'' (NdArray [1, 0]) (NdArray [0, 1]) = Inr [1, 1]"
    by (simp add: edge_emb_def np_broadcast_def)
  then show ?thesis
    using edge_vector_symmetric [where m = "''weightedL1''" and ?emb1.0 = "NdArray [1, 0]"
        and ?emb2.0 = "NdArray [0, 1]" and n2v = example_store and u = "''A''" and v = "''B''"]
    by (simp add: operators_def example_store_def embed_edge_def)
qed

lemma edge_emb_arrays:
  assumes "length xs = length ys"
  shows "edge_emb ''hadamard'' (NdArray xs) (NdArray ys) = Inr (map2 (\<lambda>x y. x * y) xs ys)"
    and "edge_emb ''average'' (NdArray xs) (NdArray ys) = Inr (map2 (\<lambda>x y. (x + y) / 2) xs ys)"
    and "edge_emb ''weightedL1'' (NdArray xs) (NdArray ys) = Inr (map2 (\<lambda>x y. \<bar>x - y\<bar>) xs ys)"
    and "edge_emb ''weightedL2'' (NdArray xs) (NdArray ys) = Inr (map2 (\<lambda>x y. (x - y) ^ 2) xs ys)"
  using assms
  by (simp_all add: edge_emb_def np_multiply_def np_add_def on_result_np_broadcast)
     (simp_all add: np_broadcast_def)

lemma edge_emb_lists:
  assumes "length xs = length ys"
  shows "edge_emb ''hadamard'' (PyList xs) (PyList ys) = Inr (map2 (\<lambda>x y. x * y) xs ys)"
    and "edge_emb ''average'' (PyList xs) (PyList ys) = Inr (map2 (\<lambda>x y. (x + y) / 2) xs ys)"
    and "edge_emb ''weightedL1'' (PyList xs) (PyList ys) = Inl TypeError"
    and "edge_emb ''weightedL2'' (PyList xs) (PyList ys) = Inl TypeError"
  using assms
  by (simp_all add: edge_emb_def np_multiply_def np_add_def on_result_np_broadcast)
     (simp_all add: np_broadcast_def)

text \<open>
  The four operators on two vectors of equal dimension. On NumPy arrays they compute
  the elementwise product, mean, absolute difference and squared difference. On Python
  lists \<^verbatim>\<open>hadamard\<close> and \<^verbatim>\<open>average\<close> compute the same, while \<^verbatim>\<open>weightedL1\<close> and
  \<^verbatim>\<open>weightedL2\<close> raise \<^verbatim>\<open>TypeError\<close>.
\<close>

theorem edge_emb_formulas:
  assumes "length xs = length ys"
  shows "edge_emb ''hadamard'' (NdArray xs) (NdArray ys) = Inr (map2 (\<lambda>x y. x * y) xs ys)
       \<and> edge_emb ''average'' (NdArray xs) (NdArray ys) = Inr (map2 (\<lambda>x y. (x + y) / 2) xs ys)
       \<and> edge_emb ''weightedL1'' (NdArray xs) (NdArray ys) = Inr (map2 (\<lambda>x y. \<bar>x - y\<bar>) xs ys)
       \<and> edge_emb ''weightedL2'' (NdArray xs) (NdArray ys) = Inr (map2 (\<lambda>x y. (x - y) ^ 2) xs ys)
       \<and> edge_emb ''hadamard'' (PyList xs) (PyList ys) = Inr (map2 (\<lambda>x y. x * y) xs ys)
       \<and> edge_emb ''average'' (PyList xs) (PyList ys) = Inr (map2 (\<lambda>x y. (x + y) / 2) xs ys)
       \<and> edge_emb ''weightedL1'' (PyList xs) (PyList ys) = Inl TypeError
       \<and> edge_emb ''weightedL2'' (PyList xs) (PyList ys) = Inl TypeError"
  using edge_emb_arrays [OF assms] edge_emb_lists [OF assms] by simp

theorem edge_emb_formulas_witness:
  "edge_emb ''hadamard'' (NdArray [1, 0]) (NdArray [0, 1]) = Inr [0, 0]
   \<and> edge_emb ''average'' (NdArray [1, 0]) (NdArray [0, 1]) = Inr [1 / 2, 1 / 2]
   \<and> edge_emb ''weightedL1'' (NdArray [1, 0]) (NdArray [0, 1]) = Inr [1, 1]
   \<and> edge_emb ''weightedL2'' (NdArray [1, 0]) (NdArray [0, 1]) = Inr [1, 1]
   \<and> edge_emb ''hadamard'' (PyList [1, 0]) (PyList [0, 1]) = Inr [0, 0]
   \<and> edge_emb ''average'' (PyList [1, 0]) (PyList [0, 1]) = Inr [1 / 2, 1 / 2]
   \<and> edge_emb ''weightedL1'' (PyList [1, 0]) (PyList [0, 1]) = Inl TypeError"
  using edge_emb_formulas [of "[1, 0]" "[0, 1]"] by simp

section \<open>The loop of \<^verbatim>\<open>create_edge_embeddings\<close>\<close>

lemma edge_loop_embed_all:
  "edge_loop m n2v es (s, d, v) =
     on_result (\<lambda>ts. (s @ map fst ts, d @ map (fst \<circ> snd) ts, v @ map (snd \<circ> snd) ts))
       (embed_all m n2v es)"
proof (induction es arbitrary: s d v)
  case Nil
  show ?case by simp
next
  case (Cons e es)
  show ?case
  proof (cases "embed_edge m n2v e")
    case (Inl err)
    then show ?thesis by simp
  next
    case (Inr t)
    obtain a b w where t: "t = (a, b, w)" by (cases t) auto
    show ?thesis
      using Inr t Cons.IH [of "s @ [a]" "d @ [b]" "v @ [w]"]
      by (cases "embed_all m n2v es") simp_all
  qed
qed

lemma embed_all_Inr_iff:
  "embed_all m n2v es = Inr ts \<longleftrightarrow> map (embed_edge m n2v) es = map Inr ts"
proof (induction es arbitrary: ts)
  case Nil
  show ?case by auto
next
  case (Cons e es)
  show ?case
  proof (cases "embed_edge m n2v e")
    case (Inl err)
    then show ?thesis by (cases ts) auto
  next
    case (Inr t)
    show ?thesis
    proof (cases "embed_all m n2v es")
      case (Inl err)
      then have "\<And>us. map (embed_edge m n2v) es \<noteq> map Inr us"
        using Cons.IH by auto
      then show ?thesis using Inl Inr by (cases ts) auto
    next
      case (Inr us)
      then have "map (embed_edge m n2v) es = map Inr us"
        using Cons.IH by simp
      then show ?thesis using Inr \<open>embed_edge m n2v e = Inr t\<close>
        by (cases ts) (auto simp: inj_map_eq_map)
    qed
  qed
qed

lemma np_array_items: "np_array rows = Inr a \<Longrightarrow> items a = map Row rows"
  by (auto simp: np_array_def split: list.splits if_splits)


lemma create_edge_embeddings_Inr:
  assumes "create_edge_embeddings m es n2v = Inr (src, dst, edg)"
  shows "\<exists>ts. map (embed_edge m n2v) es = map Inr ts
           \<and> items src = map (Row \<circ> elems \<circ> fst) ts
           \<and> items dst = map (Row \<circ> elems \<circ> fst \<circ> snd) ts
           \<and> items edg = map (Row \<circ> snd \<circ> snd) ts"
proof -
  obtain ts where ts: "embed_all m n2v es = Inr ts"
    using assms by (cases "embed_all m n2v es")
      (simp_all add: create_edge_embeddings_def edge_loop_embed_all)
  have "np_array (map elems (map fst ts)) = Inr src"
    and "np_array (map elems (map (fst \<circ> snd) ts)) = Inr dst"
    and "np_array (map (snd \<circ> snd) ts) = Inr edg"
    using assms ts
    by (auto simp: create_edge_embeddings_def edge_loop_embed_all split: sum.splits)
  then have "items src = map (Row \<circ> elems \<circ> fst) ts"
    and "items dst = map (Row \<circ> elems \<circ> fst \<circ> snd) ts"
    and "items edg = map (Row \<circ> snd \<circ> snd) ts"
    by (auto dest!: np_array_items)
  then show ?thesis using ts by (auto simp: embed_all_Inr_iff)
qed

lemma create_edge_embeddings_rows:
  assumes "create_edge_embeddings m es n2v = Inr (src, dst, edg)"
  shows "map Inr (items edg) = edge_rows m n2v es"
    and "map Inr (items src) = src_rows m n2v es"
    and "map Inr (items dst) = dst_rows m n2v es"
    and "len edg = length es"
proof -
  obtain ts where ts: "map (embed_edge m n2v) es = map Inr ts"
    and s: "items src = map (Row \<circ> elems \<circ> fst) ts"
    and d: "items dst = map (Row \<circ> elems \<circ> fst \<circ> snd) ts"
    and e: "items edg = map (Row \<circ> snd \<circ> snd) ts"
    using create_edge_embeddings_Inr [OF assms] by blast
  have "edge_rows m n2v es = map (on_result (\<lambda>t. Row (snd (snd t)))) (map (embed_edge m n2v) es)"
    by (simp add: edge_rows_def)
  then show "map Inr (items edg) = edge_rows m n2v es"
    using ts e by simp
  have "src_rows m n2v es = map (on_result (\<lambda>t. Row (elems (fst t)))) (map (embed_edge m n2v) es)"
    by (simp add: src_rows_def)
  then show "map Inr (items src) = src_rows m n2v es"
    using ts s by simp
  have "dst_rows m n2v es = map (on_result (\<lambda>t. Row (elems (fst (snd t))))) (map (embed_edge m n2v) es)"
    by (simp add: dst_rows_def)
  then show "map Inr (items dst) = dst_rows m n2v es"
    using ts d by simp
  have "length ts = length es"
    using ts by (metis length_map)
  then show "len edg = length es"
    using e by (simp add: len_def)
qed

lemma create_edge_embeddings_len:
  assumes "create_edge_embeddings m es n2v = Inr (src, dst, edg)"
  shows "len src = length es \<and> len dst = length es \<and> len edg = length es"
proof -
  note r = create_edge_embeddings_rows [OF assms]
  have "length (map Inr (items src) :: (error + item) list) = length (src_rows m n2v es)"
    using r(2) by simp
  moreover have "length (map Inr (items dst) :: (error + item) list) = length (dst_rows m n2v es)"
    using r(3) by simp
  ultimately show ?thesis
    using r(4) by (simp add: len_def src_rows_def dst_rows_def)
qed

lemma embed_edge_missing: "missing n2v e \<Longrightarrow> embed_edge m n2v e = Inl KeyError"
  by (auto simp: missing_def embed_edge_def split: option.splits)

lemma embed_all_error:
  "list_ex (\<lambda>e. isl (embed_edge m n2v e)) es \<Longrightarrow> isl (embed_all m n2v es)"
  by (induction es) (auto split: sum.splits)

lemma embed_all_first_error:
  assumes "list_all (\<lambda>x. \<not> isl (embed_edge m n2v x)) pre" and "embed_edge m n2v e = Inl err"
  shows "embed_all m n2v (pre @ e # post) = Inl err"
  using assms by (induction pre) (auto split: sum.splits)

lemma create_edge_embeddings_error:
  "embed_all m n2v es = Inl err \<Longrightarrow> create_edge_embeddings m es n2v = Inl err"
  by (simp add: create_edge_embeddings_def edge_loop_embed_all)

lemma create_edge_embeddings_Nil:
  "create_edge_embeddings m [] n2v = Inr (Array1 [], Array1 [], Array1 [])"
  by (simp add: create_edge_embeddings_def np_array_def)

text \<open>
  Claim C6, as amended. An edge list that holds an edge with an endpoint absent from the
  store never yields arrays: the call raises. The exception is \<^verbatim>\<open>KeyError\<close> when every
  edge before the first such edge embeds without an exception; otherwise it is the
  exception of an earlier edge. No edge is skipped: whenever the call returns, each of
  the three arrays has one entry per input edge.
\<close>

theorem missing_endpoint_aborts:
  "(list_ex (missing n2v) es \<longrightarrow> isl (create_edge_embeddings m es n2v))
   \<and> (list_all (\<lambda>x. \<not> isl (embed_edge m n2v x)) pre \<and> missing n2v e \<longrightarrow>
        create_edge_embeddings m (pre @ e # post) n2v = Inl KeyError)
   \<and> (create_edge_embeddings m es n2v = Inr (src, dst, edg) \<longrightarrow>
        len src = length es \<and> len dst = length es \<and> len edg = length es)"
proof (intro conjI impI)
  assume "list_ex (missing n2v) es"
  then have "list_ex (\<lambda>e. isl (embed_edge m n2v e)) es"
    by (induction es) (auto simp: embed_edge_missing)
  then have "isl (embed_all m n2v es)"
    by (rule embed_all_error)
  then obtain err where "embed_all m n2v es = Inl err"
    by (cases "embed_all m n2v es") auto
  then show "isl (create_edge_embeddings m es n2v)"
    by (simp add: create_edge_embeddings_error)
next
  assume "list_all (\<lambda>x. \<not> isl (embed_edge m n2v x)) pre \<and> missing n2v e"
  then have "embed_all m n2v (pre @ e # post) = Inl KeyError"
    by (simp add: embed_all_first_error embed_edge_missing)
  then show "create_edge_embeddings m (pre @ e # post) n2v = Inl KeyError"
    by (rule create_edge_embeddings_error)
next
  assume "create_edge_embeddings m es n2v = Inr (src, dst, edg)"
  then show "len src = length es" "len dst = length es" "len edg = length es"
    using create_edge_embeddings_len by blast+
qed

theorem missing_endpoint_aborts_witness:
  "isl (create_edge_embeddings ''cosine'' [(''A'', ''B''), (''A'', ''Z'')] example_store)
   \<and> create_edge_embeddings ''hadamard'' ([(''A'', ''B'')] @ (''A'', ''Z'') # [(''B'', ''B'')])
       example_store = Inl KeyError
   \<and> len (Array2 2 [[1, 0], [0, 1]]) = length [(''A'', ''B''), (''B'', ''A'')]"
proof -
  have a: "list_ex (missing example_store) [(''A'', ''B''), (''A'', ''Z'')]"
    by (simp add: missing_def example_store_def)
  have b: "list_all (\<lambda>x. \<not> isl (embed_edge ''hadamard'' example_store x)) [(''A'', ''B'')]
           \<and> missing example_store (''A'', ''Z'')"
    by (simp add: missing_def example_store_def embed_edge_def edge_emb_def np_multiply_def
        np_broadcast_def)
  have c: "create_edge_embeddings ''hadamard'' [(''A'', ''B''), (''B'', ''A'')] example_store =
             Inr (Array2 2 [[1, 0], [0, 1]], Array2 2 [[0, 1], [1, 0]], Array2 2 [[0, 0], [0, 0]])"
    by (simp add: create_edge_embeddings_def embed_edge_def edge_emb_def example_store_def
        np_multiply_def np_broadcast_def np_array_def)
  show ?thesis
    using a b c
      missing_endpoint_aborts [where n2v = example_store and m = "''cosine''"
        and es = "[(''A'', ''B''), (''A'', ''Z'')]"]
      missing_endpoint_aborts [where n2v = example_store and m = "''hadamard''"
        and pre = "[(''A'', ''B'')]" and e = "(''A'', ''Z'')" and post = "[(''B'', ''B'')]"]
      missing_endpoint_aborts [where n2v = example_store and m = "''hadamard''"
        and es = "[(''A'', ''B''), (''B'', ''A'')]" and src = "Array2 2 [[1, 0], [0, 1]]"
        and dst = "Array2 2 [[0, 1], [1, 0]]" and edg = "Array2 2 [[0, 0], [0, 0]]"]
    by blast
qed

text \<open>
  The claim as stated promises a lookup failure. With an unrecognised operator the
  first edge already ends the run with \<^verbatim>\<open>SystemExit(1)\<close>, before the edge with the
  missing endpoint is looked up.
\<close>

theorem missing_endpoint_counterexample:
  "create_edge_embeddings ''cosine'' [(''A'', ''B''), (''A'', ''Z'')] example_store = Inl (SystemExit 1)"
  by (simp add: create_edge_embeddings_def embed_edge_def edge_emb_def example_store_def)

section \<open>Dataset assembly\<close>














section \<open>Unrecognised operator names\<close>

lemma embed_edge_unknown_operator:
  "m \<notin> operators \<Longrightarrow>
     embed_edge m n2v e = Inl (if missing n2v e then KeyError else SystemExit 1)"
  by (auto simp: operators_def missing_def embed_edge_def edge_emb_def split: option.splits)

lemma create_edge_embeddings_unknown_operator:
  assumes "m \<notin> operators"
  shows "create_edge_embeddings m (e # es) n2v =
           Inl (if missing n2v e then KeyError else SystemExit 1)"
  using embed_edge_unknown_operator [OF assms, of n2v e]
  by (intro create_edge_embeddings_error) simp

lemma prepare_partition_Nil: "prepare_partition m n2v [] [] = Inr empty_dataset"
  by (simp add: prepare_partition_def create_edge_embeddings_Nil empty_dataset_def
      np_ones_def np_zeros_def len_def)

lemma prepare_partition_unknown_operator:
  assumes "m \<notin> operators" and "pos @ neg = e # es"
  shows "prepare_partition m n2v pos neg = Inl (if missing n2v e then KeyError else SystemExit 1)"
proof (cases pos)
  case Nil
  then have "neg = e # es" using assms(2) by simp
  then show ?thesis
    using Nil create_edge_embeddings_unknown_operator [OF assms(1), of e es n2v]
    by (simp add: prepare_partition_def create_edge_embeddings_Nil)
next
  case (Cons x xs)
  then have "x = e" using assms(2) by simp
  then show ?thesis
    using Cons create_edge_embeddings_unknown_operator [OF assms(1), of e xs n2v]
    by (simp add: prepare_partition_def)
qed

lemma prepare_partition_unknown_operator_cases:
  assumes "m \<notin> operators"
  shows "prepare_partition m n2v pos neg =
           (case pos @ neg of
              [] \<Rightarrow> Inr empty_dataset
            | e # es \<Rightarrow> Inl (if missing n2v e then KeyError else SystemExit 1))"
proof (cases "pos @ neg")
  case Nil
  then show ?thesis by (simp add: prepare_partition_Nil)
next
  case (Cons e es)
  then show ?thesis using prepare_partition_unknown_operator [OF assms Cons] by simp
qed

text \<open>
  Claim C10. For the empty edge list \<^verbatim>\<open>create_edge_embeddings\<close> returns three empty
  arrays whatever the operator name is, since the name is only tested inside the loop.
  An object whose edge lists are all empty is therefore prepared without an exception,
  and its run reaches the construction of the classifier, for every operator name.
\<close>

theorem empty_edge_list_never_aborts:
  "create_edge_embeddings m [] n2v = Inr (Array1 [], Array1 [], Array1 [])
   \<and> prepare_edge_and_node_labels
       (self\<lparr>pos_train_edges := [], neg_train_edges := [], pos_test_edges := [],
             neg_test_edges := [], pos_valid_edges := [], neg_valid_edges := []\<rparr>) =
       Inr (empty_dataset, empty_dataset, if use_validation self then Some empty_dataset else None)
   \<and> run (self\<lparr>pos_train_edges := [], neg_train_edges := [], pos_test_edges := [],
                neg_test_edges := [], pos_valid_edges := [], neg_valid_edges := []\<rparr>) =
       Inr (predict_links_classifier (classifier self) empty_dataset)"
  by (simp add: create_edge_embeddings_Nil run_def prepare_edge_and_node_labels_def
      prepare_partition_Nil)

text \<open>
  Claim C5, as amended. With an operator name outside the four, a run that embeds at
  least one edge ends in \<^verbatim>\<open>prepare_edge_and_node_labels\<close>, before a classifier is
  constructed: with \<^verbatim>\<open>SystemExit(1)\<close> when both endpoints of the first embedded edge
  are in the store, with \<^verbatim>\<open>KeyError\<close> otherwise. A run whose edge lists are all empty
  is not ended: it constructs the classifier.
\<close>

theorem unknown_operator_run:
  assumes "edge_embedding_method self \<notin> operators"
  shows "run self =
           (case processed_edges self of
              [] \<Rightarrow> Inr (predict_links_classifier (classifier self) empty_dataset)
            | e # es \<Rightarrow> Inl (if missing (map_node_vector self) e then KeyError else SystemExit 1))"
proof -
  let ?tr = "pos_train_edges self @ neg_train_edges self"
  let ?te = "pos_test_edges self @ neg_test_edges self"
  let ?va = "pos_valid_edges self @ neg_valid_edges self"
  note pp = prepare_partition_unknown_operator_cases [OF assms]
  show ?thesis
  proof (cases ?tr)
    case (Cons e es)
    then have "processed_edges self = e # es @ ?te @ (if use_validation self then ?va else [])"
      by (simp add: processed_edges_def)
    then show ?thesis
      using Cons pp [of "map_node_vector self" "pos_train_edges self" "neg_train_edges self"]
      by (simp add: run_def prepare_edge_and_node_labels_def)
  next
    case tr: Nil
    show ?thesis
    proof (cases ?te)
      case (Cons e es)
      then have "processed_edges self = e # es @ (if use_validation self then ?va else [])"
        using tr by (simp add: processed_edges_def)
      then show ?thesis
        using tr Cons pp [of "map_node_vector self" "pos_train_edges self" "neg_train_edges self"]
          pp [of "map_node_vector self" "pos_test_edges self" "neg_test_edges self"]
        by (simp add: run_def prepare_edge_and_node_labels_def)
    next
      case te: Nil
      show ?thesis
      proof (cases "use_validation self")
        case False
        then have "processed_edges self = []"
          using tr te by (simp add: processed_edges_def)
        then show ?thesis
          using False tr te pp [of "map_node_vector self" "pos_train_edges self" "neg_train_edges self"]
            pp [of "map_node_vector self" "pos_test_edges self" "neg_test_edges self"]
          by (simp add: run_def prepare_edge_and_node_labels_def)
      next
        case True
        then have pe: "processed_edges self = ?va"
          using tr te by (simp add: processed_edges_def)
        show ?thesis
          using True tr te pe pp [of "map_node_vector self" "pos_train_edges self" "neg_train_edges self"]
            pp [of "map_node_vector self" "pos_test_edges self" "neg_test_edges self"]
            pp [of "map_node_vector self" "pos_valid_edges self" "neg_valid_edges self"]
          by (cases ?va) (simp_all add: run_def prepare_edge_and_node_labels_def)
      qed
    qed
  qed
qed

theorem unknown_operator_run_witness:
  "run (example_object ''cosine'') = Inl (SystemExit 1)
   \<and> run (idle_object ''cosine'') = Inr ([], LogisticRegression)"
  using unknown_operator_run [of "example_object ''cosine''"]
    unknown_operator_run [of "idle_object ''cosine''"]
  by (simp add: example_object_def idle_object_def operators_def processed_edges_def missing_def
      example_store_def predict_links_classifier_def)

text \<open>
  The claim as stated fails for the object without edges: with the operator name
  \<^verbatim>\<open>cosine\<close> its run constructs the logistic regression.
\<close>

theorem unknown_operator_counterexample:
  "run (idle_object ''cosine'') = Inr ([], LogisticRegression)"
  by (simp add: idle_object_def run_def prepare_edge_and_node_labels_def prepare_partition_Nil
      predict_links_classifier_def)

section \<open>Classifier selection\<close>

text \<open>
  Claim C8. For every classifier name other than \<^verbatim>\<open>LR\<close>, \<^verbatim>\<open>RF\<close>, \<^verbatim>\<open>MLP\<close>,
  \<^verbatim>\<open>FFNN\<close> and \<^verbatim>\<open>MultiModalFFNN\<close> (so for \<^verbatim>\<open>SVM\<close> and for every unrecognised
  string) \<^verbatim>\<open>predict_links\<close> logs the notice of the default and constructs the
  calibrated linear support vector classifier; it raises nothing.
\<close>

theorem svm_is_default:
  assumes "name \<notin> classifier_names"
  shows "predict_links_classifier name train =
           ([''Using SVM (default) classifier for link prediction''], CalibratedLinearSVC)"
  using assms by (simp add: predict_links_classifier_def classifier_names_def)

theorem svm_is_default_witness:
  "predict_links_classifier ''SVM'' empty_dataset =
     ([''Using SVM (default) classifier for link prediction''], CalibratedLinearSVC)
   \<and> predict_links_classifier ''perceptron'' empty_dataset =
     ([''Using SVM (default) classifier for link prediction''], CalibratedLinearSVC)"
  using svm_is_default [of "''SVM''" empty_dataset] svm_is_default [of "''perceptron''" empty_dataset]
  by (simp add: classifier_names_def)

section \<open>Metrics\<close>












section \<open>The embedding store\<close>

lemma floats_Inr_iff:
  "floats pyfloat fs = (if list_all (\<lambda>f. pyfloat f \<noteq> None) fs
                         then Inr (map (\<lambda>f. the (pyfloat f)) fs) else Inl ValueError)"
  by (induction fs) (auto split: option.splits sum.splits)

lemma read_lines_store_of:
  "read_lines pyfloat lines d =
     (if list_all (parsable pyfloat) lines then Inr (d ++ store_of pyfloat lines)
      else Inl ValueError)"
proof (induction lines arbitrary: d)
  case Nil
  show ?case by (simp add: store_of_def)
next
  case (Cons line rest)
  show ?case
  proof (cases "parsable pyfloat line")
    case False
    then show ?thesis
      by (simp add: floats_Inr_iff parsable_def fields_def)
  next
    case True
    let ?k = "hd (fields line)"
    let ?v = "map (\<lambda>f. the (pyfloat f)) (tl (fields line))"
    have "floats pyfloat (tl (fields line)) = Inr ?v"
      using True by (simp add: floats_Inr_iff parsable_def)
    then have step: "read_lines pyfloat (line # rest) d = read_lines pyfloat rest (d(?k \<mapsto> ?v))"
      by (simp add: fields_def)
    have eq: "d ++ store_of pyfloat (line # rest) = d(?k \<mapsto> ?v) ++ store_of pyfloat rest"
      by (simp add: store_of_def row_of_def)
    have "list_all (parsable pyfloat) (line # rest) = list_all (parsable pyfloat) rest"
      using True by simp
    then show ?thesis
      by (simp only: step eq Cons.IH)
  qed
qed

text \<open>
  Claim C9, as amended. \<^verbatim>\<open>load_embeddings\<close> raises \<^verbatim>\<open>ValueError\<close> for no path,
  \<^verbatim>\<open>IOError\<close> for a file that does not exist, \<^verbatim>\<open>TypeError\<close> for an empty file, and
  \<^verbatim>\<open>ValueError\<close> when \<^verbatim>\<open>float\<close> refuses a field after the first of some line. In
  every other case it returns the dictionary that maps the first field of each line to
  the list of its other fields read as floats. The lengths of the rows are not compared.
\<close>

theorem load_embeddings_cases:
  "load_embeddings pyfloat fs None = Inl ValueError
   \<and> (fs path = None \<longrightarrow> load_embeddings pyfloat fs (Some path) = Inl IOError)
   \<and> (fs path = Some [] \<longrightarrow> load_embeddings pyfloat fs (Some path) = Inl TypeError)
   \<and> (fs path = Some content \<and> content \<noteq> [] \<longrightarrow>
        load_embeddings pyfloat fs (Some path) =
          (if list_all (parsable pyfloat) (file_lines content)
           then Inr (store_of pyfloat (file_lines content)) else Inl ValueError))"
  by (simp add: load_embeddings_def read_lines_store_of)

lemma float_decimal_examples:
  "float_decimal ''0'' = Some 0" "float_decimal ''1'' = Some 1"
  "float_decimal ''0\<newline>'' = Some 0" "float_decimal ''1\<newline>'' = Some 1"
  "float_decimal ''2\<newline>'' = Some 2" "float_decimal ''x\<newline>'' = None"
  by (simp_all add: float_decimal_def strip_def is_space_def digit_of_def)

theorem load_embeddings_cases_witness:
  "load_embeddings float_decimal example_fs (Some ''none.emb'') = Inl IOError
   \<and> load_embeddings float_decimal example_fs (Some ''empty.emb'') = Inl TypeError
   \<and> load_embeddings float_decimal example_fs (Some ''bad.emb'') = Inl ValueError
   \<and> load_embeddings float_decimal example_fs (Some ''ab.emb'') =
       Inr (map_of [(''B'', [0, 1]), (''A'', [1, 0])])"
  using load_embeddings_cases [where pyfloat = float_decimal and fs = example_fs and path = "''none.emb''"]
    load_embeddings_cases [where pyfloat = float_decimal and fs = example_fs and path = "''empty.emb''"]
    load_embeddings_cases [where pyfloat = float_decimal and fs = example_fs and path = "''bad.emb''"
      and content = "''A 1 x\<newline>''"]
    load_embeddings_cases [where pyfloat = float_decimal and fs = example_fs and path = "''ab.emb''"
      and content = "''A 1 0\<newline>B 0 1\<newline>''"]
  by (simp add: example_fs_def parsable_def fields_def store_of_def row_of_def float_decimal_examples)

text \<open>
  The claim as stated fails on a file whose rows differ in dimension: it is loaded.
\<close>

theorem ragged_rows_counterexample:
  "load_embeddings float_decimal example_fs (Some ''ragged.emb'') =
     Inr [''A'' \<mapsto> [1, 2], ''B'' \<mapsto> [1]]"
  by (simp add: load_embeddings_def example_fs_def float_decimal_examples)

section \<open>The store of Python lists under the subtracting operators\<close>

text \<open>
  Claim C1 promises the elementwise absolute and squared difference under
  \<^verbatim>\<open>weightedL1\<close> and \<^verbatim>\<open>weightedL2\<close>, with \<open>[1, 1]\<close> for the vectors \<open>A = [1, 0]\<close> and
  \<open>B = [0, 1]\<close>. For the object built from the file of these two vectors, whose store
  holds Python lists, \<^verbatim>\<open>create_edge_embeddings\<close> raises \<^verbatim>\<open>TypeError\<close> under both
  operators; under \<^verbatim>\<open>hadamard\<close> and \<^verbatim>\<open>average\<close> it returns \<open>[0, 0]\<close> and
  \<open>[0.5, 0.5]\<close>.
\<close>

theorem subtraction_of_lists_raises:
  "on_result (\<lambda>self. create_edge_embeddings (edge_embedding_method self) (pos_train_edges self)
                        (map_node_vector self)) (loaded_object ''weightedL1'') = Inr (Inl TypeError)
   \<and> on_result (\<lambda>self. create_edge_embeddings (edge_embedding_method self) (pos_train_edges self)
                        (map_node_vector self)) (loaded_object ''weightedL2'') = Inr (Inl TypeError)
   \<and> on_result (\<lambda>self. create_edge_embeddings (edge_embedding_method self) (pos_train_edges self)
                        (map_node_vector self)) (loaded_object ''hadamard'') =
       Inr (Inr (Array2 2 [[1, 0]], Array2 2 [[0, 1]], Array2 2 [[0, 0]]))
   \<and> on_result (\<lambda>self. create_edge_embeddings (edge_embedding_method self) (pos_train_edges self)
                        (map_node_vector self)) (loaded_object ''average'') =
       Inr (Inr (Array2 2 [[1, 0]], Array2 2 [[0, 1]], Array2 2 [[1 / 2, 1 / 2]]))"
  by (simp add: loaded_object_def init_def load_embeddings_def example_fs_def float_decimal_examples
      create_edge_embeddings_def embed_edge_def edge_emb_def np_multiply_def np_add_def
      np_broadcast_def np_array_def)

end
